theory Spec2Isabelle
  imports Complex_Main
begin

section \<open>The BugRunner component (src/components/BugRunner.tsx)\<close>

text \<open>
  The component keeps its state in React state cells (\<open>pos\<close>, \<open>vel\<close>, \<open>dragging\<close>,
  \<open>bounds\<close>, \<open>nextChangeAt\<close>) and one ref (\<open>dragOffsetRef\<close>). Every handler is modelled
  as a function from the rendered state to the state after the handler's queued updates
  have been applied: the handler reads the rendered snapshot (\<open>posRef.current\<close>,
  \<open>velRef.current\<close> and the values captured by the effect closure) and the updates are
  applied in the order in which they were queued, functional updates
  (\<open>setVel((v) => ...)\<close>) seeing the result of the earlier ones.

  JavaScript numbers are modelled as \<open>real\<close>: \<open>Math.cos\<close>, \<open>Math.sin\<close>, \<open>Math.hypot\<close>,
  \<open>Math.abs\<close>, \<open>Math.max\<close>, \<open>Math.min\<close> are the real functions, without rounding.
  The results of \<open>Math.random()\<close> and \<open>performance.now()\<close> are parameters.
\<close>

subsection \<open>Data\<close>

record vec =
  vec_x :: real
  vec_y :: real

record bounds_t =
  bounds_w :: real
  bounds_h :: real
  bounds_padding :: real

text \<open>The fields of a \<open>DOMRect\<close> that the component reads.\<close>

record dom_rect =
  rect_left :: real
  rect_top :: real
  rect_width :: real
  rect_height :: real

record pointer_event =
  clientX :: real
  clientY :: real

record state =
  pos :: vec
  vel :: vec
  dragging :: bool
  dragOffset :: vec
  bounds :: bounds_t
  nextChangeAt :: real

subsection \<open>Constants and random direction\<close>

definition SPEED :: real where
  "SPEED = 170"

definition CHANGE_INTERVAL_MIN :: real where
  "CHANGE_INTERVAL_MIN = 700"

definition CHANGE_INTERVAL_MAX :: real where
  "CHANGE_INTERVAL_MAX = 2200"

text \<open>\<open>randUnitVector\<close>; the argument is the value returned by \<open>Math.random()\<close>.\<close>

definition randUnitVector :: "real \<Rightarrow> vec" where
  "randUnitVector r =
     (let angle = r * pi * 2 in \<lparr>vec_x = cos angle, vec_y = sin angle\<rparr>)"

text \<open>
  The initial values of the state cells; \<open>r_dir\<close> and \<open>r_int\<close> are the two
  \<open>Math.random()\<close> results and \<open>now\<close> is \<open>performance.now()\<close>.
\<close>

definition init_state :: "real \<Rightarrow> real \<Rightarrow> real \<Rightarrow> state" where
  "init_state r_dir now r_int =
     (let v = randUnitVector r_dir in
      \<lparr>pos = \<lparr>vec_x = 0, vec_y = 0\<rparr>,
       vel = \<lparr>vec_x = vec_x v * SPEED, vec_y = vec_y v * SPEED\<rparr>,
       dragging = False,
       dragOffset = \<lparr>vec_x = 0, vec_y = 0\<rparr>,
       bounds = \<lparr>bounds_w = 0, bounds_h = 0, bounds_padding = 24\<rparr>,
       nextChangeAt =
         now + CHANGE_INTERVAL_MIN + r_int * (CHANGE_INTERVAL_MAX - CHANGE_INTERVAL_MIN)\<rparr>)"

subsection \<open>Measuring the container\<close>

text \<open>
  \<open>measure\<close>, called once on mount and then by the \<open>ResizeObserver\<close> on every resize of
  the container. The argument is \<open>containerRef.current?.getBoundingClientRect()\<close>,
  \<open>None\<close> when the ref is empty.
\<close>

definition measure_rect :: "state \<Rightarrow> dom_rect option \<Rightarrow> state" where
  "measure_rect s rect =
     (case rect of
        None \<Rightarrow> s
      | Some r \<Rightarrow>
          s\<lparr>bounds := \<lparr>bounds_w = rect_width r, bounds_h = rect_height r, bounds_padding = 24\<rparr>,
            pos := \<lparr>vec_x = rect_width r / 2, vec_y = rect_height r / 2\<rparr>\<rparr>)"

subsection \<open>The animation frame\<close>

text \<open>
  \<open>step\<close>, the \<open>requestAnimationFrame\<close> callback. \<open>last_t\<close> is the value of the
  effect's local variable \<open>last\<close> when the callback runs and \<open>t\<close> the frame's timestamp.
  \<open>s1\<close> is the queued state after the random direction change, \<open>s2\<close> and \<open>s3\<close> after the
  bounce on the x and on the y axis. The integrated position reads the rendered state
  \<open>s\<close> (through \<open>posRef\<close> and \<open>velRef\<close>), not the queued one.
\<close>

definition step :: "state \<Rightarrow> real \<Rightarrow> real \<Rightarrow> real \<Rightarrow> real \<Rightarrow> state" where
  "step s last_t t r_dir r_int =
     (let dt = (t - last_t) / 1000;
          s1 = (if \<not> dragging s \<and> t \<ge> nextChangeAt s
                then (let v = randUnitVector r_dir in
                      s\<lparr>vel := \<lparr>vec_x = vec_x v * SPEED, vec_y = vec_y v * SPEED\<rparr>,
                        nextChangeAt :=
                          t + CHANGE_INTERVAL_MIN
                            + r_int * (CHANGE_INTERVAL_MAX - CHANGE_INTERVAL_MIN)\<rparr>)
                else s)
      in if \<not> dragging s then
           (let nx = vec_x (pos s) + vec_x (vel s) * dt;
                ny = vec_y (pos s) + vec_y (vel s) * dt;
                pad = bounds_padding (bounds s);
                minX = pad;
                maxX = max pad (bounds_w (bounds s) - pad);
                minY = pad;
                maxY = max pad (bounds_h (bounds s) - pad);
                s2 = (if nx \<le> minX then s1\<lparr>vel := (vel s1)\<lparr>vec_x := \<bar>vec_x (vel s1)\<bar>\<rparr>\<rparr>
                      else if nx \<ge> maxX then s1\<lparr>vel := (vel s1)\<lparr>vec_x := - \<bar>vec_x (vel s1)\<bar>\<rparr>\<rparr>
                      else s1);
                nx' = (if nx \<le> minX then minX else if nx \<ge> maxX then maxX else nx);
                s3 = (if ny \<le> minY then s2\<lparr>vel := (vel s2)\<lparr>vec_y := \<bar>vec_y (vel s2)\<bar>\<rparr>\<rparr>
                      else if ny \<ge> maxY then s2\<lparr>vel := (vel s2)\<lparr>vec_y := - \<bar>vec_y (vel s2)\<bar>\<rparr>\<rparr>
                      else s2);
                ny' = (if ny \<le> minY then minY else if ny \<ge> maxY then maxY else ny)
            in s3\<lparr>pos := \<lparr>vec_x = nx', vec_y = ny'\<rparr>\<rparr>)
         else s1)"

subsection \<open>The drag handlers\<close>

text \<open>
  \<open>onPointerDown\<close>: \<open>e\<close> is the pointer event and \<open>rect\<close> the bounding rectangle of the
  bug element.
\<close>

definition onPointerDown :: "state \<Rightarrow> pointer_event \<Rightarrow> dom_rect \<Rightarrow> state" where
  "onPointerDown s e rect =
     s\<lparr>dragging := True,
       dragOffset := \<lparr>vec_x = clientX e - (rect_left rect + rect_width rect / 2),
                      vec_y = clientY e - (rect_top rect + rect_height rect / 2)\<rparr>,
       vel := \<lparr>vec_x = 0, vec_y = 0\<rparr>\<rparr>"

text \<open>\<open>onPointerMove\<close>: \<open>crect\<close> is the bounding rectangle of the container.\<close>

definition onPointerMove :: "state \<Rightarrow> pointer_event \<Rightarrow> dom_rect \<Rightarrow> state" where
  "onPointerMove s e crect =
     (if \<not> dragging s then s
      else
        (let x = clientX e - rect_left crect - vec_x (dragOffset s);
             y = clientY e - rect_top crect - vec_y (dragOffset s);
             pad = bounds_padding (bounds s);
             nx = max pad (min x (bounds_w (bounds s) - pad));
             ny = max pad (min y (bounds_h (bounds s) - pad))
         in s\<lparr>pos := \<lparr>vec_x = nx, vec_y = ny\<rparr>\<rparr>))"

text \<open>\<open>Math.hypot\<close> of two arguments.\<close>

definition hypot :: "real \<Rightarrow> real \<Rightarrow> real" where
  "hypot a b = sqrt (a\<^sup>2 + b\<^sup>2)"

text \<open>
  \<open>onPointerUp\<close>: \<open>now\<close> is \<open>performance.now()\<close>, \<open>r_dir\<close> and \<open>r_int\<close> the two
  \<open>Math.random()\<close> results.
\<close>

definition onPointerUp :: "state \<Rightarrow> real \<Rightarrow> real \<Rightarrow> real \<Rightarrow> state" where
  "onPointerUp s now r_dir r_int =
     (if \<not> dragging s then s
      else
        (let cx = bounds_w (bounds s) / 2;
             cy = bounds_h (bounds s) / 2;
             dx = vec_x (pos s) - cx;
             dy = vec_y (pos s) - cy;
             dist = hypot dx dy;
             s1 = (if dist < 60 then s\<lparr>pos := \<lparr>vec_x = cx, vec_y = cy\<rparr>\<rparr> else s);
             v = randUnitVector r_dir
         in s1\<lparr>dragging := False,
               vel := \<lparr>vec_x = vec_x v * SPEED, vec_y = vec_y v * SPEED\<rparr>,
               nextChangeAt :=
                 now + CHANGE_INTERVAL_MIN
                   + r_int * (CHANGE_INTERVAL_MAX - CHANGE_INTERVAL_MIN)\<rparr>))"

subsection \<open>The facing angle\<close>

text \<open>
  \<open>Math.atan2\<close> on the reals. The component only ever stores the literal \<open>0\<close> (positive
  zero) in a zero velocity, for which \<open>Math.atan2(0, 0)\<close> is \<open>0\<close>.
\<close>

definition atan2 :: "real \<Rightarrow> real \<Rightarrow> real" where
  "atan2 b a =
     (if a > 0 then arctan (b / a)
      else if a < 0 then (if b \<ge> 0 then arctan (b / a) + pi else arctan (b / a) - pi)
      else if b > 0 then pi / 2
      else if b < 0 then - pi / 2
      else 0)"

definition angleDeg :: "state \<Rightarrow> real" where
  "angleDeg s = atan2 (vec_y (vel s)) (vec_x (vel s)) * (180 / pi) + 90"

subsection \<open>Events and runs\<close>

text \<open>
  The events the component reacts to, with the values each handler reads from its
  environment, and the state after a sequence of events.
\<close>

datatype event =
    Measure "dom_rect option"
  | Frame real real real real
  | PointerDown pointer_event dom_rect
  | PointerMove pointer_event dom_rect
  | PointerUp real real real

fun apply_event :: "state \<Rightarrow> event \<Rightarrow> state" where
  "apply_event s (Measure rect) = measure_rect s rect"
| "apply_event s (Frame last_t t r_dir r_int) = step s last_t t r_dir r_int"
| "apply_event s (PointerDown e rect) = onPointerDown s e rect"
| "apply_event s (PointerMove e crect) = onPointerMove s e crect"
| "apply_event s (PointerUp now r_dir r_int) = onPointerUp s now r_dir r_int"

definition run :: "state \<Rightarrow> event list \<Rightarrow> state" where
  "run s es = foldl apply_event s es"

subsection \<open>Properties used in the statements\<close>

text \<open>The Euclidean magnitude of the velocity.\<close>

definition speed_of :: "state \<Rightarrow> real" where
  "speed_of s = sqrt ((vec_x (vel s))\<^sup>2 + (vec_y (vel s))\<^sup>2)"

text \<open>Position within \<open>[padding, dimension - padding]\<close> on both axes.\<close>

definition contained :: "state \<Rightarrow> bool" where
  "contained s =
     (bounds_padding (bounds s) \<le> vec_x (pos s)
      \<and> vec_x (pos s) \<le> bounds_w (bounds s) - bounds_padding (bounds s)
      \<and> bounds_padding (bounds s) \<le> vec_y (pos s)
      \<and> vec_y (pos s) \<le> bounds_h (bounds s) - bounds_padding (bounds s))"

text \<open>The state of the scenario: container 400 x 300, padding 24, entity at (390, 150),
  velocity (170, 0), not dragging, next direction change at \<open>deadline\<close>.\<close>

definition scenario_state :: "real \<Rightarrow> state" where
  "scenario_state deadline =
     \<lparr>pos = \<lparr>vec_x = 390, vec_y = 150\<rparr>,
      vel = \<lparr>vec_x = 170, vec_y = 0\<rparr>,
      dragging = False,
      dragOffset = \<lparr>vec_x = 0, vec_y = 0\<rparr>,
      bounds = \<lparr>bounds_w = 400, bounds_h = 300, bounds_padding = 24\<rparr>,
      nextChangeAt = deadline\<rparr>"

text \<open>The velocity that the bounce updates act on: the rendered one, or the new random
  one when the direction changes in this frame.\<close>

definition queued_vel :: "state \<Rightarrow> real \<Rightarrow> real \<Rightarrow> vec" where
  "queued_vel s t r_dir =
     (if \<not> dragging s \<and> t \<ge> nextChangeAt s
      then \<lparr>vec_x = cos (r_dir * pi * 2) * SPEED, vec_y = sin (r_dir * pi * 2) * SPEED\<rparr>
      else vel s)"

text \<open>Clamping a value to the interval from \<open>lo\<close> to \<open>hi\<close>, as the specification
  words it.\<close>

definition clamp_to :: "real \<Rightarrow> real \<Rightarrow> real \<Rightarrow> real" where
  "clamp_to lo hi v = (if v < lo then lo else if hi < v then hi else v)"

text \<open>The pointer position in container-local coordinates.\<close>

definition pointer_local :: "pointer_event \<Rightarrow> dom_rect \<Rightarrow> vec" where
  "pointer_local e crect =
     \<lparr>vec_x = clientX e - rect_left crect, vec_y = clientY e - rect_top crect\<rparr>"

subsection \<open>Example states\<close>

definition resize_example :: state where
  "resize_example =
     \<lparr>pos = \<lparr>vec_x = 100, vec_y = 100\<rparr>,
      vel = \<lparr>vec_x = 170, vec_y = 0\<rparr>,
      dragging = False,
      dragOffset = \<lparr>vec_x = 0, vec_y = 0\<rparr>,
      bounds = \<lparr>bounds_w = 400, bounds_h = 300, bounds_padding = 24\<rparr>,
      nextChangeAt = 1000\<rparr>"

definition facing_example :: state where
  "facing_example =
     \<lparr>pos = \<lparr>vec_x = 200, vec_y = 150\<rparr>,
      vel = \<lparr>vec_x = 0, vec_y = 170\<rparr>,
      dragging = False,
      dragOffset = \<lparr>vec_x = 0, vec_y = 0\<rparr>,
      bounds = \<lparr>bounds_w = 400, bounds_h = 300, bounds_padding = 24\<rparr>,
      nextChangeAt = 1000\<rparr>"

definition dragging_example :: state where
  "dragging_example =
     \<lparr>pos = \<lparr>vec_x = 230, vec_y = 190\<rparr>,
      vel = \<lparr>vec_x = 0, vec_y = 0\<rparr>,
      dragging = True,
      dragOffset = \<lparr>vec_x = 5, vec_y = - 3\<rparr>,
      bounds = \<lparr>bounds_w = 400, bounds_h = 300, bounds_padding = 24\<rparr>,
      nextChangeAt = 1000\<rparr>"

text \<open>The velocity is zero while a drag is active.\<close>

definition drag_vel_zero :: "state \<Rightarrow> bool" where
  "drag_vel_zero s = (dragging s \<longrightarrow> vel s = \<lparr>vec_x = 0, vec_y = 0\<rparr>)"

text \<open>A sequence of events that leaves the component in a drag: the container is
  measured, a frame runs, the pointer goes down on the entity and moves, a frame runs and
  the container is resized.\<close>

definition drag_events :: "event list" where
  "drag_events =
     [Measure (Some \<lparr>rect_left = 0, rect_top = 0, rect_width = 400, rect_height = 300\<rparr>),
      Frame 0 16 0 0,
      PointerDown \<lparr>clientX = 200, clientY = 150\<rparr>
        \<lparr>rect_left = 164, rect_top = 114, rect_width = 72, rect_height = 72\<rparr>,
      PointerMove \<lparr>clientX = 300, clientY = 100\<rparr>
        \<lparr>rect_left = 0, rect_top = 0, rect_width = 400, rect_height = 300\<rparr>,
      Frame 16 32 0 0,
      Measure (Some \<lparr>rect_left = 0, rect_top = 0, rect_width = 800, rect_height = 600\<rparr>)]"

text \<open>The container leaves room for the padding on both sides of each axis.\<close>

definition roomy :: "state \<Rightarrow> bool" where
  "roomy s =
     (2 * bounds_padding (bounds s) \<le> bounds_w (bounds s)
      \<and> 2 * bounds_padding (bounds s) \<le> bounds_h (bounds s))"

text \<open>The upper limits \<open>maxX\<close> and \<open>maxY\<close> of \<open>step\<close>, and the position \<open>(nx, ny)\<close> that
  it integrates before the bounce.\<close>

definition max_x :: "state \<Rightarrow> real" where
  "max_x s = max (bounds_padding (bounds s)) (bounds_w (bounds s) - bounds_padding (bounds s))"

definition max_y :: "state \<Rightarrow> real" where
  "max_y s = max (bounds_padding (bounds s)) (bounds_h (bounds s) - bounds_padding (bounds s))"

definition integrated :: "state \<Rightarrow> real \<Rightarrow> real \<Rightarrow> vec" where
  "integrated s last_t t =
     \<lparr>vec_x = vec_x (pos s) + vec_x (vel s) * ((t - last_t) / 1000),
      vec_y = vec_y (pos s) + vec_y (vel s) * ((t - last_t) / 1000)\<rparr>"

text \<open>The bounding rectangle of a container of size zero, and the state after it has been
  measured.\<close>

definition zero_rect :: dom_rect where
  "zero_rect = \<lparr>rect_left = 0, rect_top = 0, rect_width = 0, rect_height = 0\<rparr>"

definition zero_size_state :: state where
  "zero_size_state = measure_rect (init_state 0 0 0) (Some zero_rect)"

section \<open>Projections of the handlers\<close>

lemma step_dragging [simp]: "dragging (step s last_t t r_dir r_int) = dragging s"
  by (simp add: step_def Let_def)

lemma step_bounds [simp]: "bounds (step s last_t t r_dir r_int) = bounds s"
  by (simp add: step_def Let_def)

lemma step_while_dragging: "dragging s \<Longrightarrow> step s last_t t r_dir r_int = s"
  by (simp add: step_def Let_def)

lemma step_pos_x:
  "\<not> dragging s \<Longrightarrow>
   vec_x (pos (step s last_t t r_dir r_int)) =
     (let nx = vec_x (pos s) + vec_x (vel s) * ((t - last_t) / 1000);
          pad = bounds_padding (bounds s);
          maxX = max pad (bounds_w (bounds s) - pad)
      in if nx \<le> pad then pad else if nx \<ge> maxX then maxX else nx)"
  by (simp add: step_def Let_def)

lemma step_pos_y:
  "\<not> dragging s \<Longrightarrow>
   vec_y (pos (step s last_t t r_dir r_int)) =
     (let ny = vec_y (pos s) + vec_y (vel s) * ((t - last_t) / 1000);
          pad = bounds_padding (bounds s);
          maxY = max pad (bounds_h (bounds s) - pad)
      in if ny \<le> pad then pad else if ny \<ge> maxY then maxY else ny)"
  by (simp add: step_def Let_def)

lemma step_vel_x:
  "\<not> dragging s \<Longrightarrow>
   vec_x (vel (step s last_t t r_dir r_int)) =
     (let nx = vec_x (pos s) + vec_x (vel s) * ((t - last_t) / 1000);
          pad = bounds_padding (bounds s);
          maxX = max pad (bounds_w (bounds s) - pad);
          v = vec_x (queued_vel s t r_dir)
      in if nx \<le> pad then \<bar>v\<bar> else if nx \<ge> maxX then - \<bar>v\<bar> else v)"
  by (simp add: step_def Let_def queued_vel_def randUnitVector_def)

lemma step_vel_y:
  "\<not> dragging s \<Longrightarrow>
   vec_y (vel (step s last_t t r_dir r_int)) =
     (let ny = vec_y (pos s) + vec_y (vel s) * ((t - last_t) / 1000);
          pad = bounds_padding (bounds s);
          maxY = max pad (bounds_h (bounds s) - pad);
          v = vec_y (queued_vel s t r_dir)
      in if ny \<le> pad then \<bar>v\<bar> else if ny \<ge> maxY then - \<bar>v\<bar> else v)"
  by (simp add: step_def Let_def queued_vel_def randUnitVector_def)

section \<open>The scenario of a bounce on the right edge\<close>

text \<open>
  C3. Container 400 x 300, padding 24, position (390, 150), velocity (170, 0), not
  dragging: a frame with 100 ms elapsed integrates x to 407, which is above the maximum
  376, so the position becomes x = 376 (y stays 150); when the frame's timestamp is
  before the next direction change, the velocity becomes (-170, 0).
\<close>

theorem scenario_bounce_right:
  "vec_x (pos (scenario_state deadline)) + vec_x (vel (scenario_state deadline)) * ((t - (t - 100)) / 1000) = 407
   \<and> max (bounds_padding (bounds (scenario_state deadline)))
          (bounds_w (bounds (scenario_state deadline)) - bounds_padding (bounds (scenario_state deadline))) = 376
   \<and> pos (step (scenario_state deadline) (t - 100) t r_dir r_int) = \<lparr>vec_x = 376, vec_y = 150\<rparr>
   \<and> (t < deadline \<longrightarrow>
        vel (step (scenario_state deadline) (t - 100) t r_dir r_int) = \<lparr>vec_x = - 170, vec_y = 0\<rparr>)"
  by (simp add: step_def scenario_state_def Let_def)

theorem scenario_bounce_right_witness:
  "(100::real) < 1000
   \<and> pos (step (scenario_state 1000) 0 100 0 0) = \<lparr>vec_x = 376, vec_y = 150\<rparr>
   \<and> vel (step (scenario_state 1000) 0 100 0 0) = \<lparr>vec_x = - 170, vec_y = 0\<rparr>"
  using scenario_bounce_right [of 1000 100 0 0] by simp

section \<open>Resizing the container\<close>

text \<open>
  The claim C5 says that a resize leaves the position unchanged. It does not: an entity at
  (100, 100) in a 400 x 300 container is moved to (400, 300) when the container is
  measured again at 800 x 600.
\<close>

theorem resize_moves_position_counterexample:
  "pos (measure_rect resize_example
          (Some \<lparr>rect_left = 0, rect_top = 0, rect_width = 800, rect_height = 600\<rparr>))
     = \<lparr>vec_x = 400, vec_y = 300\<rparr>
   \<and> pos (measure_rect resize_example
          (Some \<lparr>rect_left = 0, rect_top = 0, rect_width = 800, rect_height = 600\<rparr>))
     \<noteq> pos resize_example"
  by (simp add: measure_rect_def resize_example_def)

text \<open>
  C5, as the code has it. On every resize (the container being mounted) \<open>measure\<close>
  stores the new bounds (measured width and height, padding 24) and moves the position to
  the centre of the measured rectangle; velocity, drag state, grab offset and deadline
  are unchanged. With an empty container ref it changes nothing.
\<close>

theorem resize_recentres:
  "bounds (measure_rect s (Some r)) =
     \<lparr>bounds_w = rect_width r, bounds_h = rect_height r, bounds_padding = 24\<rparr>
   \<and> pos (measure_rect s (Some r)) = \<lparr>vec_x = rect_width r / 2, vec_y = rect_height r / 2\<rparr>
   \<and> vel (measure_rect s (Some r)) = vel s
   \<and> dragging (measure_rect s (Some r)) = dragging s
   \<and> dragOffset (measure_rect s (Some r)) = dragOffset s
   \<and> nextChangeAt (measure_rect s (Some r)) = nextChangeAt s
   \<and> measure_rect s None = s"
  by (simp add: measure_rect_def)

section \<open>The facing angle during a drag\<close>

text \<open>
  The claim C9 says that during a drag the facing angle keeps the value it had for the
  last non-zero velocity. It does not: an entity moving with velocity (0, 170) faces 180
  degrees, and after the pointer goes down on it its velocity is zero and it faces 90
  degrees.
\<close>

theorem facing_not_retained_counterexample:
  "vel facing_example \<noteq> \<lparr>vec_x = 0, vec_y = 0\<rparr>
   \<and> angleDeg facing_example = 180
   \<and> vel (onPointerDown facing_example \<lparr>clientX = 200, clientY = 150\<rparr>
          \<lparr>rect_left = 164, rect_top = 114, rect_width = 72, rect_height = 72\<rparr>)
       = \<lparr>vec_x = 0, vec_y = 0\<rparr>
   \<and> angleDeg (onPointerDown facing_example \<lparr>clientX = 200, clientY = 150\<rparr>
          \<lparr>rect_left = 164, rect_top = 114, rect_width = 72, rect_height = 72\<rparr>) = 90
   \<and> angleDeg (onPointerDown facing_example \<lparr>clientX = 200, clientY = 150\<rparr>
          \<lparr>rect_left = 164, rect_top = 114, rect_width = 72, rect_height = 72\<rparr>)
       \<noteq> angleDeg facing_example"
  by (simp add: facing_example_def angleDeg_def atan2_def onPointerDown_def)

lemma init_state_drag_vel_zero: "drag_vel_zero (init_state r_dir now r_int)"
  by (simp add: drag_vel_zero_def init_state_def Let_def)

lemma onPointerDown_zero:
  "dragging (onPointerDown s e rect)"
  "vel (onPointerDown s e rect) = \<lparr>vec_x = 0, vec_y = 0\<rparr>"
  by (simp_all add: onPointerDown_def)

lemma apply_event_drag_vel_zero:
  assumes "drag_vel_zero s"
  shows "drag_vel_zero (apply_event s e)"
proof (cases e)
  case (Measure rect)
  with assms show ?thesis
    by (cases rect) (simp_all add: drag_vel_zero_def measure_rect_def)
next
  case (Frame last_t t r_dir r_int)
  show ?thesis
  proof (cases "dragging s")
    case True
    with assms Frame show ?thesis by (simp add: step_while_dragging)
  next
    case False
    with Frame show ?thesis by (simp add: drag_vel_zero_def)
  qed
next
  case (PointerDown e' rect)
  then show ?thesis by (simp add: drag_vel_zero_def onPointerDown_zero)
next
  case (PointerMove e' crect)
  with assms show ?thesis by (simp add: drag_vel_zero_def onPointerMove_def Let_def)
next
  case (PointerUp now r_dir r_int)
  with assms show ?thesis by (simp add: drag_vel_zero_def onPointerUp_def Let_def)
qed

lemma run_drag_vel_zero: "drag_vel_zero s \<Longrightarrow> drag_vel_zero (run s es)"
  unfolding run_def by (induction es arbitrary: s) (simp_all add: apply_event_drag_vel_zero)

lemma zero_vel_faces_90: "vel s = \<lparr>vec_x = 0, vec_y = 0\<rparr> \<Longrightarrow> angleDeg s = 90"
  by (simp add: angleDeg_def atan2_def)

text \<open>
  C9, as the code has it. The facing angle is computed from the current velocity alone
  and no earlier facing is stored. Whenever a drag is active, after any sequence of
  events from the initial state, the velocity is exactly zero and the facing angle is the
  fixed value 90 degrees. A pointer down puts the component into that situation whatever
  the state, and so the velocity, before it, and it lasts through every sequence of
  events for as long as the drag is active.
\<close>

theorem facing_while_dragging:
  "(dragging (run (init_state r_dir now r_int) es) \<longrightarrow>
      vel (run (init_state r_dir now r_int) es) = \<lparr>vec_x = 0, vec_y = 0\<rparr>
      \<and> angleDeg (run (init_state r_dir now r_int) es) = 90)
   \<and> (dragging (onPointerDown s e rect)
      \<and> vel (onPointerDown s e rect) = \<lparr>vec_x = 0, vec_y = 0\<rparr>
      \<and> angleDeg (onPointerDown s e rect) = 90)
   \<and> (dragging (run (onPointerDown s e rect) es) \<longrightarrow>
      vel (run (onPointerDown s e rect) es) = \<lparr>vec_x = 0, vec_y = 0\<rparr>
      \<and> angleDeg (run (onPointerDown s e rect) es) = 90)
   \<and> (dragging s' \<and> vel s' = \<lparr>vec_x = 0, vec_y = 0\<rparr> \<and> dragging (run s' es) \<longrightarrow>
      vel (run s' es) = \<lparr>vec_x = 0, vec_y = 0\<rparr> \<and> angleDeg (run s' es) = 90)"
proof (intro conjI impI)
  assume d: "dragging (run (init_state r_dir now r_int) es)"
  have "drag_vel_zero (run (init_state r_dir now r_int) es)"
    by (rule run_drag_vel_zero) (rule init_state_drag_vel_zero)
  with d show v: "vel (run (init_state r_dir now r_int) es) = \<lparr>vec_x = 0, vec_y = 0\<rparr>"
    by (simp add: drag_vel_zero_def)
  then show "angleDeg (run (init_state r_dir now r_int) es) = 90"
    by (rule zero_vel_faces_90)
next
  show "dragging (onPointerDown s e rect)"
    and "vel (onPointerDown s e rect) = \<lparr>vec_x = 0, vec_y = 0\<rparr>"
    by (rule onPointerDown_zero)+
  then show "angleDeg (onPointerDown s e rect) = 90"
    by (simp add: zero_vel_faces_90)
next
  assume d: "dragging (run (onPointerDown s e rect) es)"
  have "drag_vel_zero (onPointerDown s e rect)"
    by (simp add: drag_vel_zero_def onPointerDown_zero)
  then have "drag_vel_zero (run (onPointerDown s e rect) es)"
    by (rule run_drag_vel_zero)
  with d show v: "vel (run (onPointerDown s e rect) es) = \<lparr>vec_x = 0, vec_y = 0\<rparr>"
    by (simp add: drag_vel_zero_def)
  then show "angleDeg (run (onPointerDown s e rect) es) = 90"
    by (rule zero_vel_faces_90)
next
  assume a: "dragging s' \<and> vel s' = \<lparr>vec_x = 0, vec_y = 0\<rparr> \<and> dragging (run s' es)"
  then have "drag_vel_zero s'" by (simp add: drag_vel_zero_def)
  then have "drag_vel_zero (run s' es)" by (rule run_drag_vel_zero)
  with a show v: "vel (run s' es) = \<lparr>vec_x = 0, vec_y = 0\<rparr>"
    by (simp add: drag_vel_zero_def)
  then show "angleDeg (run s' es) = 90"
    by (rule zero_vel_faces_90)
qed

theorem facing_while_dragging_witness:
  "dragging (run (init_state 0 0 0) drag_events)
   \<and> vel (run (init_state 0 0 0) drag_events) = \<lparr>vec_x = 0, vec_y = 0\<rparr>
   \<and> angleDeg (run (init_state 0 0 0) drag_events) = 90
   \<and> dragging dragging_example \<and> vel dragging_example = \<lparr>vec_x = 0, vec_y = 0\<rparr>
   \<and> dragging (run dragging_example (drop 3 drag_events))
   \<and> angleDeg (run dragging_example (drop 3 drag_events)) = 90"
proof -
  have d: "dragging (run (init_state 0 0 0) drag_events)"
    by (simp add: run_def drag_events_def onPointerDown_def onPointerMove_def measure_rect_def
        Let_def)
  have e: "dragging dragging_example" "vel dragging_example = \<lparr>vec_x = 0, vec_y = 0\<rparr>"
    by (simp_all add: dragging_example_def)
  have f: "dragging (run dragging_example (drop 3 drag_events))"
    by (simp add: run_def drag_events_def onPointerMove_def measure_rect_def e Let_def)
  from d have g: "vel (run (init_state 0 0 0) drag_events) = \<lparr>vec_x = 0, vec_y = 0\<rparr>
      \<and> angleDeg (run (init_state 0 0 0) drag_events) = 90"
    using facing_while_dragging [where r_dir = 0 and now = 0 and r_int = 0 and es = drag_events]
    by blast
  from e f have h: "angleDeg (run dragging_example (drop 3 drag_events)) = 90"
    using facing_while_dragging [where s' = dragging_example and es = "drop 3 drag_events"]
    by blast
  from d e f g h show ?thesis by blast
qed

section \<open>Drag updates\<close>

lemma max_min_clamp: "lo \<le> hi \<Longrightarrow> max lo (min v hi) = clamp_to lo hi (v::real)"
  by (simp add: clamp_to_def max_def min_def)

lemma onPointerMove_pos:
  "dragging s \<Longrightarrow>
   pos (onPointerMove s e crect) =
     \<lparr>vec_x = max (bounds_padding (bounds s))
                 (min (clientX e - rect_left crect - vec_x (dragOffset s))
                      (bounds_w (bounds s) - bounds_padding (bounds s))),
      vec_y = max (bounds_padding (bounds s))
                 (min (clientY e - rect_top crect - vec_y (dragOffset s))
                      (bounds_h (bounds s) - bounds_padding (bounds s)))\<rparr>"
  by (simp add: onPointerMove_def Let_def)

text \<open>
  C8. For a pointer move during a drag, the new position is, on each axis, the
  container-local pointer position minus the grab offset, clamped to
  \<open>[padding, dimension - padding]\<close>: it is \<open>max(padding, min(v, dimension - padding))\<close>,
  which is the clamp of the specification whenever the interval is not empty. When the
  drag began at the centre of the entity and the padding is 24, a pointer move to
  container-local (10, 10) gives position (24, 24).
\<close>

theorem drag_update_clamps:
  "(dragging s
      \<longrightarrow> pos (onPointerMove s e crect) =
            \<lparr>vec_x = max (bounds_padding (bounds s))
                       (min (vec_x (pointer_local e crect) - vec_x (dragOffset s))
                            (bounds_w (bounds s) - bounds_padding (bounds s))),
             vec_y = max (bounds_padding (bounds s))
                       (min (vec_y (pointer_local e crect) - vec_y (dragOffset s))
                            (bounds_h (bounds s) - bounds_padding (bounds s)))\<rparr>)
   \<and> (dragging s \<and> bounds_padding (bounds s) \<le> bounds_w (bounds s) - bounds_padding (bounds s)
      \<longrightarrow> vec_x (pos (onPointerMove s e crect)) =
            clamp_to (bounds_padding (bounds s)) (bounds_w (bounds s) - bounds_padding (bounds s))
              (vec_x (pointer_local e crect) - vec_x (dragOffset s)))
   \<and> (dragging s \<and> bounds_padding (bounds s) \<le> bounds_h (bounds s) - bounds_padding (bounds s)
      \<longrightarrow> vec_y (pos (onPointerMove s e crect)) =
            clamp_to (bounds_padding (bounds s)) (bounds_h (bounds s) - bounds_padding (bounds s))
              (vec_y (pointer_local e crect) - vec_y (dragOffset s)))
   \<and> (clientX e0 = rect_left rect + rect_width rect / 2
      \<and> clientY e0 = rect_top rect + rect_height rect / 2
      \<and> bounds_padding (bounds s) = 24
      \<and> pointer_local e crect = \<lparr>vec_x = 10, vec_y = 10\<rparr>
      \<longrightarrow> pos (onPointerMove (onPointerDown s e0 rect) e crect) = \<lparr>vec_x = 24, vec_y = 24\<rparr>)"
proof (intro conjI impI)
  assume "dragging s"
  then show "pos (onPointerMove s e crect) =
            \<lparr>vec_x = max (bounds_padding (bounds s))
                       (min (vec_x (pointer_local e crect) - vec_x (dragOffset s))
                            (bounds_w (bounds s) - bounds_padding (bounds s))),
             vec_y = max (bounds_padding (bounds s))
                       (min (vec_y (pointer_local e crect) - vec_y (dragOffset s))
                            (bounds_h (bounds s) - bounds_padding (bounds s)))\<rparr>"
    by (simp add: onPointerMove_pos pointer_local_def)
next
  assume "dragging s \<and> bounds_padding (bounds s) \<le> bounds_w (bounds s) - bounds_padding (bounds s)"
  then show "vec_x (pos (onPointerMove s e crect)) =
      clamp_to (bounds_padding (bounds s)) (bounds_w (bounds s) - bounds_padding (bounds s))
        (vec_x (pointer_local e crect) - vec_x (dragOffset s))"
    by (simp add: onPointerMove_pos pointer_local_def max_min_clamp)
next
  assume "dragging s \<and> bounds_padding (bounds s) \<le> bounds_h (bounds s) - bounds_padding (bounds s)"
  then show "vec_y (pos (onPointerMove s e crect)) =
      clamp_to (bounds_padding (bounds s)) (bounds_h (bounds s) - bounds_padding (bounds s))
        (vec_y (pointer_local e crect) - vec_y (dragOffset s))"
    by (simp add: onPointerMove_pos pointer_local_def max_min_clamp)
next
  assume a: "clientX e0 = rect_left rect + rect_width rect / 2
      \<and> clientY e0 = rect_top rect + rect_height rect / 2
      \<and> bounds_padding (bounds s) = 24
      \<and> pointer_local e crect = \<lparr>vec_x = 10, vec_y = 10\<rparr>"
  then have "clientX e - rect_left crect = 10" "clientY e - rect_top crect = 10"
    by (simp_all add: pointer_local_def)
  with a show "pos (onPointerMove (onPointerDown s e0 rect) e crect) = \<lparr>vec_x = 24, vec_y = 24\<rparr>"
    by (simp add: onPointerMove_def onPointerDown_def Let_def max_def min_def)
qed

theorem drag_update_clamps_witness:
  "pos (onPointerMove dragging_example \<lparr>clientX = 500, clientY = 100\<rparr>
          \<lparr>rect_left = 0, rect_top = 0, rect_width = 400, rect_height = 300\<rparr>)
     = \<lparr>vec_x = 376, vec_y = 103\<rparr>
   \<and> pos (onPointerMove
            (onPointerDown dragging_example \<lparr>clientX = 236, clientY = 186\<rparr>
               \<lparr>rect_left = 200, rect_top = 150, rect_width = 72, rect_height = 72\<rparr>)
            \<lparr>clientX = 10, clientY = 10\<rparr>
            \<lparr>rect_left = 0, rect_top = 0, rect_width = 400, rect_height = 300\<rparr>)
     = \<lparr>vec_x = 24, vec_y = 24\<rparr>"
proof -
  have d: "dragging dragging_example" by (simp add: dragging_example_def)
  have b: "bounds_padding (bounds dragging_example) = 24"
    "bounds_w (bounds dragging_example) = 400" "bounds_h (bounds dragging_example) = 300"
    "dragOffset dragging_example = \<lparr>vec_x = 5, vec_y = - 3\<rparr>"
    by (simp_all add: dragging_example_def)
  note th = drag_update_clamps [of dragging_example "\<lparr>clientX = 500, clientY = 100\<rparr>"
      "\<lparr>rect_left = 0, rect_top = 0, rect_width = 400, rect_height = 300\<rparr>"
      "\<lparr>clientX = 236, clientY = 186\<rparr>"
      "\<lparr>rect_left = 200, rect_top = 150, rect_width = 72, rect_height = 72\<rparr>"]
  note th2 = drag_update_clamps [of dragging_example "\<lparr>clientX = 10, clientY = 10\<rparr>"
      "\<lparr>rect_left = 0, rect_top = 0, rect_width = 400, rect_height = 300\<rparr>"
      "\<lparr>clientX = 236, clientY = 186\<rparr>"
      "\<lparr>rect_left = 200, rect_top = 150, rect_width = 72, rect_height = 72\<rparr>"]
  have x: "vec_x (pos (onPointerMove dragging_example \<lparr>clientX = 500, clientY = 100\<rparr>
          \<lparr>rect_left = 0, rect_top = 0, rect_width = 400, rect_height = 300\<rparr>)) = 376"
    using th d by (simp add: b clamp_to_def pointer_local_def)
  have y: "vec_y (pos (onPointerMove dragging_example \<lparr>clientX = 500, clientY = 100\<rparr>
          \<lparr>rect_left = 0, rect_top = 0, rect_width = 400, rect_height = 300\<rparr>)) = 103"
    using th d by (simp add: b clamp_to_def pointer_local_def)
  have z: "pos (onPointerMove
            (onPointerDown dragging_example \<lparr>clientX = 236, clientY = 186\<rparr>
               \<lparr>rect_left = 200, rect_top = 150, rect_width = 72, rect_height = 72\<rparr>)
            \<lparr>clientX = 10, clientY = 10\<rparr>
            \<lparr>rect_left = 0, rect_top = 0, rect_width = 400, rect_height = 300\<rparr>)
     = \<lparr>vec_x = 24, vec_y = 24\<rparr>"
    using th2 by (simp add: b pointer_local_def)
  have "pos (onPointerMove dragging_example \<lparr>clientX = 500, clientY = 100\<rparr>
          \<lparr>rect_left = 0, rect_top = 0, rect_width = 400, rect_height = 300\<rparr>)
     = \<lparr>vec_x = 376, vec_y = 103\<rparr>"
    by (rule vec.equality) (simp_all add: x y)
  with z show ?thesis by simp
qed

section \<open>The magnitude of a random velocity\<close>

lemma rand_speed: "sqrt ((cos a * SPEED)\<^sup>2 + (sin a * SPEED)\<^sup>2) = SPEED"
proof -
  have "(cos a * SPEED)\<^sup>2 + (sin a * SPEED)\<^sup>2 = ((cos a)\<^sup>2 + (sin a)\<^sup>2) * SPEED\<^sup>2"
    by (simp only: power_mult_distrib distrib_right)
  also have "\<dots> = SPEED\<^sup>2"
    by (simp only: sin_cos_squared_add2 mult_1)
  finally show ?thesis by (simp add: SPEED_def)
qed

lemma onPointerUp_speed:
  "dragging s \<Longrightarrow> speed_of (onPointerUp s now r_dir r_int) = SPEED"
  by (simp add: onPointerUp_def speed_of_def randUnitVector_def rand_speed Let_def)

lemma onPointerUp_dragging: "\<not> dragging (onPointerUp s now r_dir r_int)"
  by (simp add: onPointerUp_def Let_def)

section \<open>Releasing a drag\<close>

lemma interval_bounds:
  assumes "0 \<le> r" "r < 1"
  shows "e < e + CHANGE_INTERVAL_MIN + r * (CHANGE_INTERVAL_MAX - CHANGE_INTERVAL_MIN)"
    and "e + 700 \<le> e + CHANGE_INTERVAL_MIN + r * (CHANGE_INTERVAL_MAX - CHANGE_INTERVAL_MIN)"
    and "e + CHANGE_INTERVAL_MIN + r * (CHANGE_INTERVAL_MAX - CHANGE_INTERVAL_MIN) \<le> e + 2200"
  using assms by (simp_all add: CHANGE_INTERVAL_MIN_def CHANGE_INTERVAL_MAX_def)

lemma onPointerUp_deadline:
  "dragging s \<Longrightarrow>
   nextChangeAt (onPointerUp s now r_dir r_int) =
     now + CHANGE_INTERVAL_MIN + r_int * (CHANGE_INTERVAL_MAX - CHANGE_INTERVAL_MIN)"
  by (simp add: onPointerUp_def Let_def)

lemma step_deadline:
  "\<not> dragging s \<Longrightarrow> nextChangeAt s \<le> t \<Longrightarrow>
   nextChangeAt (step s last_t t r_dir r_int) =
     t + CHANGE_INTERVAL_MIN + r_int * (CHANGE_INTERVAL_MAX - CHANGE_INTERVAL_MIN)"
  by (simp add: step_def Let_def)

lemma onPointerUp_pos:
  "dragging s \<Longrightarrow>
   pos (onPointerUp s now r_dir r_int) =
     (if hypot (vec_x (pos s) - bounds_w (bounds s) / 2) (vec_y (pos s) - bounds_h (bounds s) / 2) < 60
      then \<lparr>vec_x = bounds_w (bounds s) / 2, vec_y = bounds_h (bounds s) / 2\<rparr>
      else pos s)"
  by (simp add: onPointerUp_def Let_def)

lemma onPointerUp_vel:
  "dragging s \<Longrightarrow>
   vel (onPointerUp s now r_dir r_int) =
     \<lparr>vec_x = cos (r_dir * pi * 2) * SPEED, vec_y = sin (r_dir * pi * 2) * SPEED\<rparr>"
  by (simp add: onPointerUp_def randUnitVector_def Let_def)

text \<open>
  C6. For every drag release: if the distance from the position to the centre of the
  container is strictly below 60, the position becomes the exact centre, and otherwise
  the position stays where it was released; in both cases dragging becomes false, the
  velocity becomes the random unit vector times 170 (so of magnitude 170), and the
  next-change deadline is set to the release time plus 700 plus the random share of the
  1500 ms span.
\<close>

theorem drag_release:
  assumes "dragging s"
  shows "(hypot (vec_x (pos s) - bounds_w (bounds s) / 2)
                (vec_y (pos s) - bounds_h (bounds s) / 2) < 60
            \<longrightarrow> pos (onPointerUp s now r_dir r_int)
                  = \<lparr>vec_x = bounds_w (bounds s) / 2, vec_y = bounds_h (bounds s) / 2\<rparr>)
       \<and> (\<not> hypot (vec_x (pos s) - bounds_w (bounds s) / 2)
                (vec_y (pos s) - bounds_h (bounds s) / 2) < 60
            \<longrightarrow> pos (onPointerUp s now r_dir r_int) = pos s)
       \<and> \<not> dragging (onPointerUp s now r_dir r_int)
       \<and> vel (onPointerUp s now r_dir r_int)
           = \<lparr>vec_x = cos (r_dir * pi * 2) * 170, vec_y = sin (r_dir * pi * 2) * 170\<rparr>
       \<and> speed_of (onPointerUp s now r_dir r_int) = 170
       \<and> nextChangeAt (onPointerUp s now r_dir r_int) = now + 700 + r_int * (2200 - 700)"
  using assms
  by (simp add: onPointerUp_pos onPointerUp_dragging onPointerUp_speed onPointerUp_deadline
      onPointerUp_vel)
    (simp add: SPEED_def CHANGE_INTERVAL_MIN_def CHANGE_INTERVAL_MAX_def)

lemma hypot_30_40: "hypot 30 40 = 50"
proof -
  have "hypot 30 40 = sqrt (50\<^sup>2)" by (simp add: hypot_def)
  also have "\<dots> = 50" by simp
  finally show ?thesis .
qed

lemma hypot_far: "\<not> hypot (- 176) (- 126) < 60"
proof -
  have "(60::real)\<^sup>2 \<le> (- 176)\<^sup>2 + (- 126)\<^sup>2" by simp
  then have "60 \<le> sqrt ((- 176)\<^sup>2 + (- 126)\<^sup>2)" by (rule real_le_rsqrt)
  then show ?thesis by (simp add: hypot_def)
qed

theorem drag_release_witness:
  "dragging dragging_example
   \<and> pos dragging_example = \<lparr>vec_x = 230, vec_y = 190\<rparr>
   \<and> pos (onPointerUp dragging_example 5000 0 (1 / 2)) = \<lparr>vec_x = 200, vec_y = 150\<rparr>
   \<and> \<not> dragging (onPointerUp dragging_example 5000 0 (1 / 2))
   \<and> vel (onPointerUp dragging_example 5000 0 (1 / 2)) = \<lparr>vec_x = 170, vec_y = 0\<rparr>
   \<and> nextChangeAt (onPointerUp dragging_example 5000 0 (1 / 2)) = 6450
   \<and> pos (onPointerUp (dragging_example\<lparr>pos := \<lparr>vec_x = 24, vec_y = 24\<rparr>\<rparr>) 5000 0 (1 / 2))
       = \<lparr>vec_x = 24, vec_y = 24\<rparr>"
proof -
  have d: "dragging dragging_example"
    and p: "pos dragging_example = \<lparr>vec_x = 230, vec_y = 190\<rparr>"
    and b: "bounds dragging_example = \<lparr>bounds_w = 400, bounds_h = 300, bounds_padding = 24\<rparr>"
    by (simp_all add: dragging_example_def)
  have near: "pos (onPointerUp dragging_example 5000 0 (1 / 2)) = \<lparr>vec_x = 200, vec_y = 150\<rparr>"
    and n: "\<not> dragging (onPointerUp dragging_example 5000 0 (1 / 2))"
    and v: "vel (onPointerUp dragging_example 5000 0 (1 / 2)) = \<lparr>vec_x = 170, vec_y = 0\<rparr>"
    and c: "nextChangeAt (onPointerUp dragging_example 5000 0 (1 / 2)) = 6450"
    using drag_release [OF d, of 5000 0 "1 / 2"] by (simp_all add: p b hypot_30_40)
  have d': "dragging (dragging_example\<lparr>pos := \<lparr>vec_x = 24, vec_y = 24\<rparr>\<rparr>)"
    by (simp add: d)
  have far: "pos (onPointerUp (dragging_example\<lparr>pos := \<lparr>vec_x = 24, vec_y = 24\<rparr>\<rparr>) 5000 0 (1 / 2))
       = \<lparr>vec_x = 24, vec_y = 24\<rparr>"
    using drag_release [OF d', of 5000 0 "1 / 2"] by (simp add: b hypot_far)
  from d p near n v c far show ?thesis by simp
qed

section \<open>The next-change deadline\<close>

text \<open>
  C7. For every randomization event, with \<open>Math.random()\<close> in [0, 1): when the timer
  expires during a frame with timestamp t, the new deadline is strictly after t and within
  [t + 700, t + 2200]; when a drag is released at time now, the new deadline is strictly
  after now and within [now + 700, now + 2200].
\<close>

theorem deadline_window:
  "(\<not> dragging s \<and> nextChangeAt s \<le> t \<and> 0 \<le> r_int \<and> r_int < 1
      \<longrightarrow> t < nextChangeAt (step s last_t t r_dir r_int)
          \<and> t + 700 \<le> nextChangeAt (step s last_t t r_dir r_int)
          \<and> nextChangeAt (step s last_t t r_dir r_int) \<le> t + 2200)
   \<and> (dragging s \<and> 0 \<le> r_int \<and> r_int < 1
      \<longrightarrow> now < nextChangeAt (onPointerUp s now r_dir r_int)
          \<and> now + 700 \<le> nextChangeAt (onPointerUp s now r_dir r_int)
          \<and> nextChangeAt (onPointerUp s now r_dir r_int) \<le> now + 2200)"
  by (simp add: step_deadline onPointerUp_deadline interval_bounds)

theorem deadline_window_witness:
  "\<not> dragging (scenario_state 1000) \<and> nextChangeAt (scenario_state 1000) \<le> 1000
   \<and> (1000::real) < nextChangeAt (step (scenario_state 1000) 984 1000 0 (1 / 2))
   \<and> (1000::real) + 700 \<le> nextChangeAt (step (scenario_state 1000) 984 1000 0 (1 / 2))
   \<and> nextChangeAt (step (scenario_state 1000) 984 1000 0 (1 / 2)) \<le> 1000 + 2200
   \<and> dragging dragging_example
   \<and> (5000::real) + 700 \<le> nextChangeAt (onPointerUp dragging_example 5000 0 0)
   \<and> nextChangeAt (onPointerUp dragging_example 5000 0 0) \<le> 5000 + 2200"
proof -
  have a: "\<not> dragging (scenario_state 1000)" "nextChangeAt (scenario_state 1000) \<le> 1000"
    by (simp_all add: scenario_state_def)
  have d: "dragging dragging_example" by (simp add: dragging_example_def)
  have e: "(1000::real) < nextChangeAt (step (scenario_state 1000) 984 1000 0 (1 / 2))
     \<and> (1000::real) + 700 \<le> nextChangeAt (step (scenario_state 1000) 984 1000 0 (1 / 2))
     \<and> nextChangeAt (step (scenario_state 1000) 984 1000 0 (1 / 2)) \<le> 1000 + 2200"
    using deadline_window [where s = "scenario_state 1000" and t = 1000 and r_int = "1 / 2"
        and last_t = 984 and r_dir = 0] a by simp
  have f: "(5000::real) + 700 \<le> nextChangeAt (onPointerUp dragging_example 5000 0 0)
     \<and> nextChangeAt (onPointerUp dragging_example 5000 0 0) \<le> 5000 + 2200"
    using deadline_window [where s = dragging_example and now = 5000 and r_int = 0
        and r_dir = 0] d by simp
  from a d e f show ?thesis by simp
qed

section \<open>Degenerate bounds\<close>

lemma zero_size_state_eq:
  "zero_size_state =
     \<lparr>pos = \<lparr>vec_x = 0, vec_y = 0\<rparr>,
      vel = \<lparr>vec_x = 170, vec_y = 0\<rparr>,
      dragging = False,
      dragOffset = \<lparr>vec_x = 0, vec_y = 0\<rparr>,
      bounds = \<lparr>bounds_w = 0, bounds_h = 0, bounds_padding = 24\<rparr>,
      nextChangeAt = 700\<rparr>"
  by (simp add: zero_size_state_def measure_rect_def init_state_def zero_rect_def
      randUnitVector_def SPEED_def CHANGE_INTERVAL_MIN_def CHANGE_INTERVAL_MAX_def Let_def)

lemma step_pos_x_degenerate:
  "\<not> dragging s \<Longrightarrow> bounds_w (bounds s) \<le> 2 * bounds_padding (bounds s) \<Longrightarrow>
   vec_x (pos (step s last_t t r_dir r_int)) = bounds_padding (bounds s)"
  by (simp add: step_pos_x Let_def max_def)

lemma step_pos_y_degenerate:
  "\<not> dragging s \<Longrightarrow> bounds_h (bounds s) \<le> 2 * bounds_padding (bounds s) \<Longrightarrow>
   vec_y (pos (step s last_t t r_dir r_int)) = bounds_padding (bounds s)"
  by (simp add: step_pos_y Let_def max_def)

lemma onPointerMove_degenerate:
  assumes "dragging s"
  shows "bounds_w (bounds s) \<le> 2 * bounds_padding (bounds s) \<Longrightarrow>
           vec_x (pos (onPointerMove s e crect)) = bounds_padding (bounds s)"
    and "bounds_h (bounds s) \<le> 2 * bounds_padding (bounds s) \<Longrightarrow>
           vec_y (pos (onPointerMove s e crect)) = bounds_padding (bounds s)"
  using assms by (simp_all add: onPointerMove_pos max_def min_def)

text \<open>
  C10. For a container narrower than twice the padding (in particular of size zero) the
  lower and upper limit of the frame update on the x axis are equal, and every frame
  update outside a drag and every drag update puts x at the padding; likewise for y and
  the height. So with such a width and height the entity is parked at the single point
  x = y = padding. Both updates are total: \<open>step\<close> and \<open>onPointerMove\<close> have no failing
  branch, as the source has no operation that throws.
\<close>

theorem degenerate_bounds_park:
  "(bounds_w (bounds s) \<le> 2 * bounds_padding (bounds s)
      \<longrightarrow> max_x s = bounds_padding (bounds s)
          \<and> (\<not> dragging s \<longrightarrow>
                vec_x (pos (step s last_t t r_dir r_int)) = bounds_padding (bounds s))
          \<and> (dragging s \<longrightarrow>
                vec_x (pos (onPointerMove s e crect)) = bounds_padding (bounds s)))
   \<and> (bounds_h (bounds s) \<le> 2 * bounds_padding (bounds s)
      \<longrightarrow> max_y s = bounds_padding (bounds s)
          \<and> (\<not> dragging s \<longrightarrow>
                vec_y (pos (step s last_t t r_dir r_int)) = bounds_padding (bounds s))
          \<and> (dragging s \<longrightarrow>
                vec_y (pos (onPointerMove s e crect)) = bounds_padding (bounds s)))"
  by (simp add: step_pos_x_degenerate step_pos_y_degenerate onPointerMove_degenerate
      max_x_def max_y_def)

theorem degenerate_bounds_park_witness:
  "bounds zero_size_state = \<lparr>bounds_w = 0, bounds_h = 0, bounds_padding = 24\<rparr>
   \<and> \<not> dragging zero_size_state
   \<and> max_x zero_size_state = 24 \<and> max_y zero_size_state = 24
   \<and> vec_x (pos (step zero_size_state 0 16 0 0)) = 24
   \<and> vec_y (pos (step zero_size_state 0 16 0 0)) = 24
   \<and> dragging (onPointerDown zero_size_state \<lparr>clientX = 0, clientY = 0\<rparr> zero_rect)
   \<and> vec_x (pos (onPointerMove
          (onPointerDown zero_size_state \<lparr>clientX = 0, clientY = 0\<rparr> zero_rect)
          \<lparr>clientX = 100, clientY = - 50\<rparr> zero_rect)) = 24
   \<and> vec_y (pos (onPointerMove
          (onPointerDown zero_size_state \<lparr>clientX = 0, clientY = 0\<rparr> zero_rect)
          \<lparr>clientX = 100, clientY = - 50\<rparr> zero_rect)) = 24"
proof -
  have b: "bounds zero_size_state = \<lparr>bounds_w = 0, bounds_h = 0, bounds_padding = 24\<rparr>"
    and d: "\<not> dragging zero_size_state"
    by (simp_all add: zero_size_state_eq)
  have b': "bounds (onPointerDown zero_size_state \<lparr>clientX = 0, clientY = 0\<rparr> zero_rect)
      = \<lparr>bounds_w = 0, bounds_h = 0, bounds_padding = 24\<rparr>"
    and d': "dragging (onPointerDown zero_size_state \<lparr>clientX = 0, clientY = 0\<rparr> zero_rect)"
    by (simp_all add: onPointerDown_def b)
  have f: "max_x zero_size_state = 24 \<and> max_y zero_size_state = 24
      \<and> vec_x (pos (step zero_size_state 0 16 0 0)) = 24
      \<and> vec_y (pos (step zero_size_state 0 16 0 0)) = 24"
    using degenerate_bounds_park [of zero_size_state 0 16 0 0] b d by simp
  have g: "vec_x (pos (onPointerMove
          (onPointerDown zero_size_state \<lparr>clientX = 0, clientY = 0\<rparr> zero_rect)
          \<lparr>clientX = 100, clientY = - 50\<rparr> zero_rect)) = 24
      \<and> vec_y (pos (onPointerMove
          (onPointerDown zero_size_state \<lparr>clientX = 0, clientY = 0\<rparr> zero_rect)
          \<lparr>clientX = 100, clientY = - 50\<rparr> zero_rect)) = 24"
    using degenerate_bounds_park
      [where s = "onPointerDown zero_size_state \<lparr>clientX = 0, clientY = 0\<rparr> zero_rect"
        and e = "\<lparr>clientX = 100, clientY = - 50\<rparr>" and crect = zero_rect] b' d'
    by simp
  from b d d' f g show ?thesis by simp
qed

section \<open>Containment\<close>

lemma step_pos_x_range:
  "\<not> dragging s \<Longrightarrow>
   bounds_padding (bounds s) \<le> vec_x (pos (step s last_t t r_dir r_int))
   \<and> vec_x (pos (step s last_t t r_dir r_int)) \<le> max_x s"
  by (simp add: step_pos_x Let_def max_x_def)

lemma step_pos_y_range:
  "\<not> dragging s \<Longrightarrow>
   bounds_padding (bounds s) \<le> vec_y (pos (step s last_t t r_dir r_int))
   \<and> vec_y (pos (step s last_t t r_dir r_int)) \<le> max_y s"
  by (simp add: step_pos_y Let_def max_y_def)

lemma onPointerMove_range:
  assumes "dragging s"
  shows "bounds_padding (bounds s) \<le> vec_x (pos (onPointerMove s e crect))
       \<and> vec_x (pos (onPointerMove s e crect)) \<le> max_x s"
    and "bounds_padding (bounds s) \<le> vec_y (pos (onPointerMove s e crect))
       \<and> vec_y (pos (onPointerMove s e crect)) \<le> max_y s"
  using assms by (simp_all add: onPointerMove_pos max_x_def max_y_def)

lemma onPointerMove_bounds [simp]: "bounds (onPointerMove s e crect) = bounds s"
  by (simp add: onPointerMove_def Let_def)

lemma roomy_max:
  "roomy s \<Longrightarrow> max_x s = bounds_w (bounds s) - bounds_padding (bounds s)"
  "roomy s \<Longrightarrow> max_y s = bounds_h (bounds s) - bounds_padding (bounds s)"
  by (simp_all add: roomy_def max_x_def max_y_def)

lemma step_contained: "\<not> dragging s \<Longrightarrow> roomy s \<Longrightarrow> contained (step s last_t t r_dir r_int)"
  using step_pos_x_range [of s last_t t r_dir r_int] step_pos_y_range [of s last_t t r_dir r_int]
  by (simp add: contained_def roomy_max)

lemma onPointerMove_contained: "dragging s \<Longrightarrow> roomy s \<Longrightarrow> contained (onPointerMove s e crect)"
  using onPointerMove_range [of s e crect]
  by (simp add: contained_def roomy_max)

lemma measure_rect_contained:
  "contained s \<Longrightarrow> roomy (measure_rect s rect) \<Longrightarrow> contained (measure_rect s rect)"
  by (cases rect) (simp_all add: measure_rect_def contained_def roomy_def)

lemma onPointerDown_contained: "contained s \<Longrightarrow> contained (onPointerDown s e rect)"
  by (simp add: contained_def onPointerDown_def)

lemma onPointerUp_bounds [simp]: "bounds (onPointerUp s now r_dir r_int) = bounds s"
  by (simp add: onPointerUp_def Let_def)

lemma onPointerUp_contained:
  assumes "contained s" "roomy s"
  shows "contained (onPointerUp s now r_dir r_int)"
proof (cases "dragging s")
  case True
  with assms show ?thesis
    by (simp add: contained_def onPointerUp_pos roomy_def)
next
  case False
  with assms show ?thesis by (simp add: onPointerUp_def)
qed

lemma apply_event_contained:
  assumes "contained s" "roomy (apply_event s e)"
  shows "contained (apply_event s e)"
proof (cases e)
  case (Measure rect)
  with assms show ?thesis by (simp add: measure_rect_contained)
next
  case (Frame last_t t r_dir r_int)
  with assms have r: "roomy s" by (simp add: roomy_def)
  show ?thesis
  proof (cases "dragging s")
    case True
    with assms Frame show ?thesis by (simp add: step_while_dragging)
  next
    case False
    with r Frame show ?thesis by (simp add: step_contained)
  qed
next
  case (PointerDown e' rect)
  with assms show ?thesis by (simp add: onPointerDown_contained)
next
  case (PointerMove e' crect)
  with assms have r: "roomy s" by (simp add: roomy_def)
  show ?thesis
  proof (cases "dragging s")
    case True
    with r PointerMove show ?thesis by (simp add: onPointerMove_contained)
  next
    case False
    with assms PointerMove show ?thesis by (simp add: onPointerMove_def)
  qed
next
  case (PointerUp now r_dir r_int)
  with assms have r: "roomy s" by (simp add: roomy_def)
  with assms PointerUp show ?thesis by (simp add: onPointerUp_contained)
qed

text \<open>
  The claim C1 says that after every frame update outside a drag the position is within
  \<open>[padding, width - padding]\<close> and \<open>[padding, height - padding]\<close>. After a container of
  size zero has been measured, a frame puts the entity at (24, 24), while
  width - padding is -24.
\<close>

theorem containment_counterexample:
  "\<not> dragging zero_size_state
   \<and> bounds zero_size_state = \<lparr>bounds_w = 0, bounds_h = 0, bounds_padding = 24\<rparr>
   \<and> pos (step zero_size_state 0 16 0 0) = \<lparr>vec_x = 24, vec_y = 24\<rparr>
   \<and> \<not> vec_x (pos (step zero_size_state 0 16 0 0))
        \<le> bounds_w (bounds zero_size_state) - bounds_padding (bounds zero_size_state)
   \<and> \<not> contained (step zero_size_state 0 16 0 0)"
  by (simp add: zero_size_state_eq step_def contained_def Let_def)

text \<open>
  C1, as the code has it. After every frame update outside a drag and after every drag
  update the position satisfies padding <= x <= max(padding, width - padding) and
  padding <= y <= max(padding, height - padding). Hence, when the container is at least
  twice the padding wide and high, the position is within \<open>[padding, width - padding]\<close>
  and \<open>[padding, height - padding]\<close> after each of these updates, and every operation
  (measuring, frame, pointer down, pointer move, pointer up) that ends in such a container
  preserves this containment.
\<close>

theorem containment:
  "(\<not> dragging s \<longrightarrow>
      bounds_padding (bounds s) \<le> vec_x (pos (step s last_t t r_dir r_int))
      \<and> vec_x (pos (step s last_t t r_dir r_int))
          \<le> max (bounds_padding (bounds s)) (bounds_w (bounds s) - bounds_padding (bounds s))
      \<and> bounds_padding (bounds s) \<le> vec_y (pos (step s last_t t r_dir r_int))
      \<and> vec_y (pos (step s last_t t r_dir r_int))
          \<le> max (bounds_padding (bounds s)) (bounds_h (bounds s) - bounds_padding (bounds s)))
   \<and> (dragging s \<longrightarrow>
      bounds_padding (bounds s) \<le> vec_x (pos (onPointerMove s e crect))
      \<and> vec_x (pos (onPointerMove s e crect))
          \<le> max (bounds_padding (bounds s)) (bounds_w (bounds s) - bounds_padding (bounds s))
      \<and> bounds_padding (bounds s) \<le> vec_y (pos (onPointerMove s e crect))
      \<and> vec_y (pos (onPointerMove s e crect))
          \<le> max (bounds_padding (bounds s)) (bounds_h (bounds s) - bounds_padding (bounds s)))
   \<and> (\<not> dragging s \<and> roomy s \<longrightarrow> contained (step s last_t t r_dir r_int))
   \<and> (dragging s \<and> roomy s \<longrightarrow> contained (onPointerMove s e crect))
   \<and> (contained s \<and> roomy (apply_event s ev) \<longrightarrow> contained (apply_event s ev))"
  using step_pos_x_range [of s last_t t r_dir r_int] step_pos_y_range [of s last_t t r_dir r_int]
    onPointerMove_range [of s e crect]
  by (simp add: step_contained onPointerMove_contained apply_event_contained max_x_def max_y_def)

theorem containment_witness:
  "\<not> dragging resize_example \<and> roomy resize_example \<and> contained resize_example
   \<and> contained (step resize_example 0 16 0 0)
   \<and> contained (apply_event resize_example
        (Measure (Some \<lparr>rect_left = 0, rect_top = 0, rect_width = 800, rect_height = 600\<rparr>)))
   \<and> dragging dragging_example \<and> roomy dragging_example
   \<and> contained (onPointerMove dragging_example \<lparr>clientX = 10, clientY = 10\<rparr>
        \<lparr>rect_left = 0, rect_top = 0, rect_width = 400, rect_height = 300\<rparr>)"
proof -
  have a: "\<not> dragging resize_example" "roomy resize_example" "contained resize_example"
    by (simp_all add: resize_example_def roomy_def contained_def)
  have b: "dragging dragging_example" "roomy dragging_example"
    by (simp_all add: dragging_example_def roomy_def)
  have r: "roomy (apply_event resize_example
        (Measure (Some \<lparr>rect_left = 0, rect_top = 0, rect_width = 800, rect_height = 600\<rparr>)))"
    by (simp add: measure_rect_def roomy_def)
  note th1 = containment [where s = resize_example and last_t = 0 and t = 16 and r_dir = 0
      and r_int = 0
      and ev = "Measure (Some \<lparr>rect_left = 0, rect_top = 0, rect_width = 800, rect_height = 600\<rparr>)"]
  note th2 = containment [where s = dragging_example and e = "\<lparr>clientX = 10, clientY = 10\<rparr>"
      and crect = "\<lparr>rect_left = 0, rect_top = 0, rect_width = 400, rect_height = 300\<rparr>"]
  from th1 a have c: "contained (step resize_example 0 16 0 0)" by blast
  from th1 a r have d: "contained (apply_event resize_example
        (Measure (Some \<lparr>rect_left = 0, rect_top = 0, rect_width = 800, rect_height = 600\<rparr>)))"
    by blast
  from th2 b have e: "contained (onPointerMove dragging_example \<lparr>clientX = 10, clientY = 10\<rparr>
        \<lparr>rect_left = 0, rect_top = 0, rect_width = 400, rect_height = 300\<rparr>)"
    by blast
  from a b c d e show ?thesis by blast
qed

section \<open>Reflection at the edges\<close>

lemma outward_lo:
  fixes p v d lo :: real
  assumes "p + v * d < lo" "lo \<le> p" "0 \<le> d"
  shows "v < 0"
proof (rule ccontr)
  assume "\<not> v < 0"
  then have "0 \<le> v * d" using assms(3) by simp
  with assms(1,2) show False by simp
qed

lemma outward_hi:
  fixes p v d hi :: real
  assumes "hi < p + v * d" "p \<le> hi" "0 \<le> d"
  shows "0 < v"
proof (rule ccontr)
  assume "\<not> 0 < v"
  then have "v * d \<le> 0" using assms(3) by (simp add: mult_nonpos_nonneg)
  with assms(1,2) show False by simp
qed

lemma queued_vel_no_change: "t < nextChangeAt s \<Longrightarrow> queued_vel s t r_dir = vel s"
  by (simp add: queued_vel_def)

lemma bounce_x:
  assumes "\<not> dragging s"
  shows "vec_x (integrated s last_t t) < bounds_padding (bounds s) \<Longrightarrow>
           vec_x (pos (step s last_t t r_dir r_int)) = bounds_padding (bounds s)
           \<and> vec_x (vel (step s last_t t r_dir r_int)) = \<bar>vec_x (queued_vel s t r_dir)\<bar>"
    and "max_x s < vec_x (integrated s last_t t) \<Longrightarrow>
           vec_x (pos (step s last_t t r_dir r_int)) = max_x s
           \<and> vec_x (vel (step s last_t t r_dir r_int)) = - \<bar>vec_x (queued_vel s t r_dir)\<bar>"
  using assms
  by (simp_all add: step_pos_x step_vel_x integrated_def max_x_def Let_def)

lemma bounce_y:
  assumes "\<not> dragging s"
  shows "vec_y (integrated s last_t t) < bounds_padding (bounds s) \<Longrightarrow>
           vec_y (pos (step s last_t t r_dir r_int)) = bounds_padding (bounds s)
           \<and> vec_y (vel (step s last_t t r_dir r_int)) = \<bar>vec_y (queued_vel s t r_dir)\<bar>"
    and "max_y s < vec_y (integrated s last_t t) \<Longrightarrow>
           vec_y (pos (step s last_t t r_dir r_int)) = max_y s
           \<and> vec_y (vel (step s last_t t r_dir r_int)) = - \<bar>vec_y (queued_vel s t r_dir)\<bar>"
  using assms
  by (simp_all add: step_pos_y step_vel_y integrated_def max_y_def Let_def)

lemma flip_x:
  assumes d: "\<not> dragging s"
    and r: "bounds_padding (bounds s) \<le> vec_x (pos s)" "vec_x (pos s) \<le> max_x s"
    and t: "last_t \<le> t"
    and x: "vec_x (integrated s last_t t) < bounds_padding (bounds s)
            \<or> max_x s < vec_x (integrated s last_t t)"
  shows "vec_x (vel s) \<noteq> 0"
    and "vec_x (vel (step s last_t t r_dir r_int)) * vec_x (vel s) \<le> 0"
    and "t < nextChangeAt s \<Longrightarrow> vec_x (vel (step s last_t t r_dir r_int)) = - vec_x (vel s)"
proof -
  have dt: "0 \<le> (t - last_t) / 1000" using t by simp
  from x have "vec_x (vel s) \<noteq> 0
      \<and> vec_x (vel (step s last_t t r_dir r_int)) * vec_x (vel s) \<le> 0
      \<and> (t < nextChangeAt s \<longrightarrow> vec_x (vel (step s last_t t r_dir r_int)) = - vec_x (vel s))"
  proof
    assume lo: "vec_x (integrated s last_t t) < bounds_padding (bounds s)"
    then have "vec_x (pos s) + vec_x (vel s) * ((t - last_t) / 1000) < bounds_padding (bounds s)"
      by (simp add: integrated_def)
    from outward_lo [OF this r(1) dt] have neg: "vec_x (vel s) < 0" .
    from bounce_x(1) [OF d lo]
    have v: "vec_x (vel (step s last_t t r_dir r_int)) = \<bar>vec_x (queued_vel s t r_dir)\<bar>"
      by simp
    then have "0 \<le> vec_x (vel (step s last_t t r_dir r_int))" by simp
    with neg have "vec_x (vel (step s last_t t r_dir r_int)) * vec_x (vel s) \<le> 0"
      by (simp add: mult_nonneg_nonpos)
    with neg v show ?thesis by (simp add: queued_vel_no_change)
  next
    assume hi: "max_x s < vec_x (integrated s last_t t)"
    then have "max_x s < vec_x (pos s) + vec_x (vel s) * ((t - last_t) / 1000)"
      by (simp add: integrated_def)
    from outward_hi [OF this r(2) dt] have p: "0 < vec_x (vel s)" .
    from bounce_x(2) [OF d hi]
    have v: "vec_x (vel (step s last_t t r_dir r_int)) = - \<bar>vec_x (queued_vel s t r_dir)\<bar>"
      by simp
    then have "vec_x (vel (step s last_t t r_dir r_int)) \<le> 0" by simp
    with p have "vec_x (vel (step s last_t t r_dir r_int)) * vec_x (vel s) \<le> 0"
      by (simp add: mult_nonpos_nonneg)
    with p v show ?thesis by (simp add: queued_vel_no_change)
  qed
  then show "vec_x (vel s) \<noteq> 0"
    and "vec_x (vel (step s last_t t r_dir r_int)) * vec_x (vel s) \<le> 0"
    and "t < nextChangeAt s \<Longrightarrow> vec_x (vel (step s last_t t r_dir r_int)) = - vec_x (vel s)"
    by simp_all
qed

lemma flip_y:
  assumes d: "\<not> dragging s"
    and r: "bounds_padding (bounds s) \<le> vec_y (pos s)" "vec_y (pos s) \<le> max_y s"
    and t: "last_t \<le> t"
    and x: "vec_y (integrated s last_t t) < bounds_padding (bounds s)
            \<or> max_y s < vec_y (integrated s last_t t)"
  shows "vec_y (vel s) \<noteq> 0"
    and "vec_y (vel (step s last_t t r_dir r_int)) * vec_y (vel s) \<le> 0"
    and "t < nextChangeAt s \<Longrightarrow> vec_y (vel (step s last_t t r_dir r_int)) = - vec_y (vel s)"
proof -
  have dt: "0 \<le> (t - last_t) / 1000" using t by simp
  from x have "vec_y (vel s) \<noteq> 0
      \<and> vec_y (vel (step s last_t t r_dir r_int)) * vec_y (vel s) \<le> 0
      \<and> (t < nextChangeAt s \<longrightarrow> vec_y (vel (step s last_t t r_dir r_int)) = - vec_y (vel s))"
  proof
    assume lo: "vec_y (integrated s last_t t) < bounds_padding (bounds s)"
    then have "vec_y (pos s) + vec_y (vel s) * ((t - last_t) / 1000) < bounds_padding (bounds s)"
      by (simp add: integrated_def)
    from outward_lo [OF this r(1) dt] have neg: "vec_y (vel s) < 0" .
    from bounce_y(1) [OF d lo]
    have v: "vec_y (vel (step s last_t t r_dir r_int)) = \<bar>vec_y (queued_vel s t r_dir)\<bar>"
      by simp
    then have "0 \<le> vec_y (vel (step s last_t t r_dir r_int))" by simp
    with neg have "vec_y (vel (step s last_t t r_dir r_int)) * vec_y (vel s) \<le> 0"
      by (simp add: mult_nonneg_nonpos)
    with neg v show ?thesis by (simp add: queued_vel_no_change)
  next
    assume hi: "max_y s < vec_y (integrated s last_t t)"
    then have "max_y s < vec_y (pos s) + vec_y (vel s) * ((t - last_t) / 1000)"
      by (simp add: integrated_def)
    from outward_hi [OF this r(2) dt] have p: "0 < vec_y (vel s)" .
    from bounce_y(2) [OF d hi]
    have v: "vec_y (vel (step s last_t t r_dir r_int)) = - \<bar>vec_y (queued_vel s t r_dir)\<bar>"
      by simp
    then have "vec_y (vel (step s last_t t r_dir r_int)) \<le> 0" by simp
    with p have "vec_y (vel (step s last_t t r_dir r_int)) * vec_y (vel s) \<le> 0"
      by (simp add: mult_nonpos_nonneg)
    with p v show ?thesis by (simp add: queued_vel_no_change)
  qed
  then show "vec_y (vel s) \<noteq> 0"
    and "vec_y (vel (step s last_t t r_dir r_int)) * vec_y (vel s) \<le> 0"
    and "t < nextChangeAt s \<Longrightarrow> vec_y (vel (step s last_t t r_dir r_int)) = - vec_y (vel s)"
    by simp_all
qed

text \<open>
  The claim C2 says that whenever the integrated position lies beyond a padded boundary,
  the velocity component changes its sign. In the state after a container of size zero has
  been measured (position (0, 0), velocity (170, 0)) a frame of 16 ms integrates x to
  2.72, below the minimum 24, and the velocity component stays 170.
\<close>

theorem reflection_counterexample:
  "\<not> dragging zero_size_state
   \<and> vec_x (integrated zero_size_state 0 16) < bounds_padding (bounds zero_size_state)
   \<and> vec_x (vel zero_size_state) = 170
   \<and> vec_x (vel (step zero_size_state 0 16 0 0)) = 170"
  by (simp add: zero_size_state_eq step_def integrated_def Let_def)

text \<open>
  C2, as the code has it. For every frame outside a drag in which the integrated position
  on an axis lies beyond a padded boundary, the position after the frame is exactly that
  boundary and the velocity component after the frame points back into the container: it
  is |v| at the minimum and -|v| at the maximum, v being the component after the direction
  change of this frame, if there is one. When the position before the frame was within the
  padded range on that axis and the elapsed time is not negative, the component before the
  frame was not zero, the component after the frame never has the same sign, and when
  the direction does not change in this frame it is exactly the negated component.
\<close>

theorem reflection_law:
  assumes "\<not> dragging s"
  shows "(vec_x (integrated s last_t t) < bounds_padding (bounds s) \<longrightarrow>
            vec_x (pos (step s last_t t r_dir r_int)) = bounds_padding (bounds s)
            \<and> vec_x (vel (step s last_t t r_dir r_int)) = \<bar>vec_x (queued_vel s t r_dir)\<bar>)
       \<and> (max_x s < vec_x (integrated s last_t t) \<longrightarrow>
            vec_x (pos (step s last_t t r_dir r_int)) = max_x s
            \<and> vec_x (vel (step s last_t t r_dir r_int)) = - \<bar>vec_x (queued_vel s t r_dir)\<bar>)
       \<and> (vec_y (integrated s last_t t) < bounds_padding (bounds s) \<longrightarrow>
            vec_y (pos (step s last_t t r_dir r_int)) = bounds_padding (bounds s)
            \<and> vec_y (vel (step s last_t t r_dir r_int)) = \<bar>vec_y (queued_vel s t r_dir)\<bar>)
       \<and> (max_y s < vec_y (integrated s last_t t) \<longrightarrow>
            vec_y (pos (step s last_t t r_dir r_int)) = max_y s
            \<and> vec_y (vel (step s last_t t r_dir r_int)) = - \<bar>vec_y (queued_vel s t r_dir)\<bar>)
       \<and> (bounds_padding (bounds s) \<le> vec_x (pos s) \<and> vec_x (pos s) \<le> max_x s \<and> last_t \<le> t
            \<and> (vec_x (integrated s last_t t) < bounds_padding (bounds s)
                \<or> max_x s < vec_x (integrated s last_t t)) \<longrightarrow>
            vec_x (vel s) \<noteq> 0
            \<and> vec_x (vel (step s last_t t r_dir r_int)) * vec_x (vel s) \<le> 0
            \<and> (t < nextChangeAt s \<longrightarrow>
                 vec_x (vel (step s last_t t r_dir r_int)) = - vec_x (vel s)))
       \<and> (bounds_padding (bounds s) \<le> vec_y (pos s) \<and> vec_y (pos s) \<le> max_y s \<and> last_t \<le> t
            \<and> (vec_y (integrated s last_t t) < bounds_padding (bounds s)
                \<or> max_y s < vec_y (integrated s last_t t)) \<longrightarrow>
            vec_y (vel s) \<noteq> 0
            \<and> vec_y (vel (step s last_t t r_dir r_int)) * vec_y (vel s) \<le> 0
            \<and> (t < nextChangeAt s \<longrightarrow>
                 vec_y (vel (step s last_t t r_dir r_int)) = - vec_y (vel s)))"
proof (intro conjI impI)
  assume "vec_x (integrated s last_t t) < bounds_padding (bounds s)"
  from bounce_x(1) [OF assms this]
  show "vec_x (pos (step s last_t t r_dir r_int)) = bounds_padding (bounds s)"
    and "vec_x (vel (step s last_t t r_dir r_int)) = \<bar>vec_x (queued_vel s t r_dir)\<bar>"
    by simp_all
next
  assume "max_x s < vec_x (integrated s last_t t)"
  from bounce_x(2) [OF assms this]
  show "vec_x (pos (step s last_t t r_dir r_int)) = max_x s"
    and "vec_x (vel (step s last_t t r_dir r_int)) = - \<bar>vec_x (queued_vel s t r_dir)\<bar>"
    by simp_all
next
  assume "vec_y (integrated s last_t t) < bounds_padding (bounds s)"
  from bounce_y(1) [OF assms this]
  show "vec_y (pos (step s last_t t r_dir r_int)) = bounds_padding (bounds s)"
    and "vec_y (vel (step s last_t t r_dir r_int)) = \<bar>vec_y (queued_vel s t r_dir)\<bar>"
    by simp_all
next
  assume "max_y s < vec_y (integrated s last_t t)"
  from bounce_y(2) [OF assms this]
  show "vec_y (pos (step s last_t t r_dir r_int)) = max_y s"
    and "vec_y (vel (step s last_t t r_dir r_int)) = - \<bar>vec_y (queued_vel s t r_dir)\<bar>"
    by simp_all
next
  assume a: "bounds_padding (bounds s) \<le> vec_x (pos s) \<and> vec_x (pos s) \<le> max_x s \<and> last_t \<le> t
            \<and> (vec_x (integrated s last_t t) < bounds_padding (bounds s)
                \<or> max_x s < vec_x (integrated s last_t t))"
  then show "vec_x (vel s) \<noteq> 0"
    and "vec_x (vel (step s last_t t r_dir r_int)) * vec_x (vel s) \<le> 0"
    using flip_x(1) [of s last_t t] flip_x(2) [of s last_t t r_dir r_int] assms by blast+
  assume "t < nextChangeAt s"
  with a show "vec_x (vel (step s last_t t r_dir r_int)) = - vec_x (vel s)"
    using flip_x(3) [of s last_t t r_dir r_int] assms by blast
next
  assume a: "bounds_padding (bounds s) \<le> vec_y (pos s) \<and> vec_y (pos s) \<le> max_y s \<and> last_t \<le> t
            \<and> (vec_y (integrated s last_t t) < bounds_padding (bounds s)
                \<or> max_y s < vec_y (integrated s last_t t))"
  then show "vec_y (vel s) \<noteq> 0"
    and "vec_y (vel (step s last_t t r_dir r_int)) * vec_y (vel s) \<le> 0"
    using flip_y(1) [of s last_t t] flip_y(2) [of s last_t t r_dir r_int] assms by blast+
  assume "t < nextChangeAt s"
  with a show "vec_y (vel (step s last_t t r_dir r_int)) = - vec_y (vel s)"
    using flip_y(3) [of s last_t t r_dir r_int] assms by blast
qed

theorem reflection_law_witness:
  "\<not> dragging resize_example
   \<and> bounds_padding (bounds resize_example) \<le> vec_x (pos resize_example)
   \<and> vec_x (pos resize_example) \<le> max_x resize_example
   \<and> (- 1100 :: real) \<le> 900
   \<and> max_x resize_example < vec_x (integrated resize_example (- 1100) 900)
   \<and> 900 < nextChangeAt resize_example
   \<and> vec_x (vel resize_example) = 170
   \<and> vec_x (pos (step resize_example (- 1100) 900 0 0)) = 376
   \<and> vec_x (vel (step resize_example (- 1100) 900 0 0)) = - 170"
proof -
  have d: "\<not> dragging resize_example"
    and p: "bounds_padding (bounds resize_example) \<le> vec_x (pos resize_example)"
    and m: "max_x resize_example = 376"
    and q: "vec_x (pos resize_example) \<le> max_x resize_example"
    and i: "max_x resize_example < vec_x (integrated resize_example (- 1100) 900)"
    and n: "900 < nextChangeAt resize_example"
    and v: "vec_x (vel resize_example) = 170"
    by (simp_all add: resize_example_def max_x_def integrated_def)
  note th = reflection_law [OF d, of "- 1100" 900 0 0]
  from th i m have x: "vec_x (pos (step resize_example (- 1100) 900 0 0)) = 376" by simp
  have "(- 1100 :: real) \<le> 900" by simp
  with th p q i n have "vec_x (vel (step resize_example (- 1100) 900 0 0))
      = - vec_x (vel resize_example)"
    by blast
  with v have w: "vec_x (vel (step resize_example (- 1100) 900 0 0)) = - 170" by simp
  from d p q i n v x w show ?thesis by simp
qed

end
